theory Spec2Isabelle
  imports Complex_Main "HOL-Library.Option_ord" "HOL-Library.Multiset"
    "HOL-Library.Product_Lexorder" "HOL-Library.List_Lexorder" "HOL-Library.Char_ord"
begin

section \<open>The VVD campaign pipeline (vvd\_campaign\_pipeline.py)\<close>

text \<open>
  The pipeline is a sequence of Spark dataframe expressions over one input table.
  A dataframe is modelled as the list of its rows, a nullable column as an
  \<open>option\<close> (\<open>None\<close> is SQL null), a \<open>DateType\<close> value as the number of days
  since the epoch, and a \<open>DoubleType\<close> value as a real number (rounding is not
  modelled).  Column expressions follow Spark SQL with
  \<open>spark.sql.ansi.enabled = false\<close>: a null operand gives null, a division by zero
  gives null, and the aggregates \<open>count(c)\<close>, \<open>sum(c)\<close>, \<open>avg(c)\<close> skip the rows
  in which \<open>c\<close> is null.

  The script calls \<open>date_sub\<close> and \<open>countDistinct\<close> without importing them; the
  model reads both as the functions of \<open>pyspark.sql.functions\<close> of that name.

  Each dataframe statement of the script is modelled by itself: a statement that the
  engine rejects is an error value, and a statement built on it fails with that error.
\<close>

subsection \<open>campaign\_schema\<close>

type_synonym date = int

record deployment =
  TACTIC_ID :: "string option"
  CLIENT_ID :: "string option"
  CAMPAIGN_ID :: "string option"
  CAMPAIGN_NAME :: "string option"
  DEPLOYMENT_DATE :: "date option"
  CHANNEL :: "string option"
  CREATIVE_ID :: "string option"
  SEGMENT :: "string option"
  OFFER_TYPE :: "string option"
  RESPONSE_FLAG :: "int option"
  RESPONSE_DATE :: "date option"
  CONVERSION_FLAG :: "int option"
  CONVERSION_DATE :: "date option"
  REVENUE :: "real option"

text \<open>The types of \<open>campaign_schema\<close>, by column name.\<close>

datatype data_type = StringType | IntegerType | LongType | DoubleType | DateType

definition campaign_schema :: "(string \<times> data_type) list" where
  "campaign_schema =
     [(''TACTIC_ID'', StringType), (''CLIENT_ID'', StringType), (''CAMPAIGN_ID'', StringType),
      (''CAMPAIGN_NAME'', StringType), (''DEPLOYMENT_DATE'', DateType), (''CHANNEL'', StringType),
      (''CREATIVE_ID'', StringType), (''SEGMENT'', StringType), (''OFFER_TYPE'', StringType),
      (''RESPONSE_FLAG'', IntegerType), (''RESPONSE_DATE'', DateType),
      (''CONVERSION_FLAG'', IntegerType), (''CONVERSION_DATE'', DateType),
      (''REVENUE'', DoubleType)]"

subsection \<open>Analysis errors\<close>

text \<open>
  The engine analyses a dataframe expression when it is built, before it reads a row,
  and raises an \<open>AnalysisException\<close> for an expression it rejects: a range frame whose
  bounds do not fit the type of the ordering column (the two types are kept), or a
  column name that denotes two columns or none.  A statement of the script that
  raises is the value \<open>Inl\<close> of the error; a statement built on it fails with it.
\<close>

datatype error =
    RangeFrameInvalidType data_type data_type
  | AmbiguousReference string
  | UnresolvedColumn string

definition then_do :: "error + 'a \<Rightarrow> ('a \<Rightarrow> error + 'b) \<Rightarrow> error + 'b" where
  "then_do r f = (case r of Inl e \<Rightarrow> Inl e | Inr x \<Rightarrow> f x)"

text \<open>The position of the one column of that name.\<close>

definition resolve :: "string list \<Rightarrow> string \<Rightarrow> error + nat" where
  "resolve cols name =
     (case filter (\<lambda>i. cols ! i = name) [0..<length cols] of
        [] \<Rightarrow> Inl (UnresolvedColumn name)
      | [i] \<Rightarrow> Inr i
      | _ \<Rightarrow> Inl (AmbiguousReference name))"

subsection \<open>Column functions\<close>

text \<open>\<open>count(c)\<close>: the number of rows whose \<open>c\<close> is not null.\<close>

definition count_col :: "('r \<Rightarrow> 'a option) \<Rightarrow> 'r list \<Rightarrow> int" where
  "count_col c rows = int (length (List.map_filter c rows))"

text \<open>\<open>sum(c)\<close> over an integer column: null when no row has a value.\<close>

definition sum_col :: "('r \<Rightarrow> int option) \<Rightarrow> 'r list \<Rightarrow> int option" where
  "sum_col c rows =
     (let vs = List.map_filter c rows in if vs = [] then None else Some (sum_list vs))"

text \<open>\<open>avg(c)\<close> over an integer column: the mean of the non-null values, null when there are none.\<close>

definition avg_col :: "('r \<Rightarrow> int option) \<Rightarrow> 'r list \<Rightarrow> real option" where
  "avg_col c rows =
     (let vs = List.map_filter c rows
      in if vs = [] then None else Some (real_of_int (sum_list vs) / real (length vs)))"

text \<open>\<open>countDistinct(c)\<close>: the number of distinct non-null values.\<close>

definition countDistinct :: "('r \<Rightarrow> 'a option) \<Rightarrow> 'r list \<Rightarrow> int" where
  "countDistinct c rows = int (length (remdups (List.map_filter c rows)))"

text \<open>\<open>a / b\<close> on two integer columns: a double, null on a null operand or a zero divisor.\<close>

definition col_div :: "int option \<Rightarrow> int option \<Rightarrow> real option" where
  "col_div a b =
     (case a of None \<Rightarrow> None
      | Some x \<Rightarrow> (case b of None \<Rightarrow> None
                  | Some y \<Rightarrow> if y = 0 then None else Some (real_of_int x / real_of_int y)))"

definition col_mul :: "real option \<Rightarrow> real \<Rightarrow> real option" where
  "col_mul a k = (case a of None \<Rightarrow> None | Some x \<Rightarrow> Some (x * k))"

text \<open>\<open>datediff(end, start)\<close>: the number of days from \<open>start\<close> to \<open>end\<close>.\<close>

definition datediff :: "date option \<Rightarrow> date option \<Rightarrow> int option" where
  "datediff e s =
     (case e of None \<Rightarrow> None
      | Some x \<Rightarrow> (case s of None \<Rightarrow> None | Some y \<Rightarrow> Some (x - y)))"

text \<open>\<open>when(flag == 1, v)\<close> with no \<open>otherwise\<close>: null unless the flag is 1.\<close>

definition when_flag :: "int option \<Rightarrow> int option \<Rightarrow> int option" where
  "when_flag flag v = (if flag = Some 1 then v else None)"

text \<open>\<open>groupBy(key)\<close>: one group per key value, null keys forming a group of their own.\<close>

definition groupBy :: "('r \<Rightarrow> 'k) \<Rightarrow> 'r list \<Rightarrow> ('k \<times> 'r list) list" where
  "groupBy key rows = map (\<lambda>k. (k, filter (\<lambda>r. key r = k) rows)) (remdups (map key rows))"

subsection \<open>df\_deployments\<close>

text \<open>
  The rows read from the CSV file, kept when \<open>DEPLOYMENT_DATE\<close> lies between
  \<open>analysis_start_date = date_sub(current_date(), 548)\<close> and
  \<open>analysis_end_date = current_date()\<close>; a null date fails the test.
\<close>

definition analysis_start_date :: "date \<Rightarrow> date" where
  "analysis_start_date today = today - 548"

definition between_dates :: "date option \<Rightarrow> date \<Rightarrow> date \<Rightarrow> bool" where
  "between_dates d lo hi = (case d of None \<Rightarrow> False | Some x \<Rightarrow> lo \<le> x \<and> x \<le> hi)"

definition df_deployments :: "date \<Rightarrow> deployment list \<Rightarrow> deployment list" where
  "df_deployments today csv =
     filter (\<lambda>r. between_dates (DEPLOYMENT_DATE r) (analysis_start_date today) today) csv"

subsection \<open>1. Contact frequency\<close>

text \<open>
  \<open>Window.partitionBy("CLIENT_ID").orderBy("DEPLOYMENT_DATE")\<close>: the rows of one
  client in ascending date order (nulls first).  Spark leaves the order of rows with
  equal dates open; the model keeps them in the order in which they arrive.
\<close>

definition window_client :: "deployment list \<Rightarrow> string option \<Rightarrow> deployment list" where
  "window_client rows c = sort_key DEPLOYMENT_DATE (filter (\<lambda>r. CLIENT_ID r = c) rows)"

text \<open>
  \<open>rangeBetween(start, end)\<close> hands its two Python integers to the engine as longs:
  0 is the current row, any other bound of the script a literal of type bigint.
\<close>

datatype boundary = CurrentRow | Literal data_type int

type_synonym range_frame = "boundary \<times> boundary"

definition boundary_of :: "int \<Rightarrow> boundary" where
  "boundary_of x = (if x = 0 then CurrentRow else Literal LongType x)"

definition rangeBetween :: "int \<Rightarrow> int \<Rightarrow> range_frame" where
  "rangeBetween lo hi = (boundary_of lo, boundary_of hi)"

definition window_client_30d :: range_frame where
  "window_client_30d = rangeBetween (- 30 * 86400) 0"

definition window_client_60d :: range_frame where
  "window_client_60d = rangeBetween (- 60 * 86400) 0"

definition window_client_90d :: range_frame where
  "window_client_90d = rangeBetween (- 90 * 86400) 0"

text \<open>
  The analysis of a range frame over one ordering column: a literal bound must have
  the type of the ordering column, or be an integer over a date.  An accepted frame is
  its pair of offsets.
\<close>

definition valid_frame_type :: "data_type \<Rightarrow> data_type \<Rightarrow> bool" where
  "valid_frame_type order bound = ((order = DateType \<and> bound = IntegerType) \<or> order = bound)"

definition check_boundary :: "data_type \<Rightarrow> boundary \<Rightarrow> error + int" where
  "check_boundary order b =
     (case b of CurrentRow \<Rightarrow> Inr 0
      | Literal t x \<Rightarrow> if valid_frame_type order t then Inr x
                       else Inl (RangeFrameInvalidType order t))"

definition analyse_frame :: "(string \<times> data_type) list \<Rightarrow> string \<Rightarrow> range_frame \<Rightarrow> error + (int \<times> int)" where
  "analyse_frame schema order_by frame =
     (case map_of schema order_by of
        None \<Rightarrow> Inl (UnresolvedColumn order_by)
      | Some t \<Rightarrow>
          then_do (check_boundary t (fst frame)) (\<lambda>lo.
          then_do (check_boundary t (snd frame)) (\<lambda>hi. Inr (lo, hi))))"

text \<open>
  An accepted frame holds, for a row, the rows of its partition whose ordering value
  lies between the value of the row plus the lower offset and the value of the row
  plus the upper one; rows with a null value are peers of each other only.
\<close>

definition in_frame :: "int \<times> int \<Rightarrow> date option \<Rightarrow> date option \<Rightarrow> bool" where
  "in_frame f cur d =
     (case cur of None \<Rightarrow> d = None
      | Some c \<Rightarrow> (case d of None \<Rightarrow> False | Some e \<Rightarrow> c + fst f \<le> e \<and> e \<le> c + snd f))"

text \<open>\<open>count("TACTIC_ID").over(w)\<close> for an accepted frame of \<open>window_client\<close>.\<close>

definition count_over :: "int \<times> int \<Rightarrow> deployment list \<Rightarrow> 'a deployment_scheme \<Rightarrow> int" where
  "count_over f rows w =
     count_col TACTIC_ID
       (filter (\<lambda>r. CLIENT_ID r = CLIENT_ID w \<and> in_frame f (DEPLOYMENT_DATE w) (DEPLOYMENT_DATE r)) rows)"

text \<open>\<open>lag("DEPLOYMENT_DATE", 1)\<close>: the date of the row before, null for the first row.\<close>

definition lag :: "deployment option \<Rightarrow> date option" where
  "lag prev = (case prev of None \<Rightarrow> None | Some p \<Rightarrow> DEPLOYMENT_DATE p)"

text \<open>
  The first two \<open>withColumn\<close> calls of the chain, \<open>days_since_last_contact\<close> and
  \<open>contact_number\<close>, are over \<open>window_client\<close>, which has no frame of its own:
  \<open>prev\<close> is the row before in the ordered partition, \<open>n\<close> the \<open>row_number()\<close>.
\<close>

record contact_order = deployment +
  days_since_last_contact :: "int option"
  contact_number :: int

definition with_ordinals :: "deployment option \<Rightarrow> int \<Rightarrow> deployment \<Rightarrow> contact_order" where
  "with_ordinals prev n r =
     deployment.extend r (contact_order.fields (datediff (DEPLOYMENT_DATE r) (lag prev)) n)"

fun over_window :: "deployment option \<Rightarrow> int \<Rightarrow> deployment list \<Rightarrow> contact_order list" where
  "over_window prev n [] = []"
| "over_window prev n (r # rs) = with_ordinals prev n r # over_window (Some r) (n + 1) rs"

definition over_window_client :: "deployment list \<Rightarrow> string option \<Rightarrow> contact_order list" where
  "over_window_client rows c = over_window None 1 (window_client rows c)"

text \<open>The frame that the chain holds after its second \<open>withColumn\<close>.\<close>

definition ordered_contacts :: "date \<Rightarrow> deployment list \<Rightarrow> contact_order list" where
  "ordered_contacts today csv =
     (let rows = df_deployments today csv
      in concat (map (over_window_client rows) (remdups (map CLIENT_ID rows))))"

text \<open>
  The last three \<open>withColumn\<close> calls count over the frames of \<open>window_client_30d\<close>,
  \<open>window_client_60d\<close> and \<open>window_client_90d\<close>, which are analysed against the
  ordering column \<open>DEPLOYMENT_DATE\<close> of \<open>campaign_schema\<close> when the column is added.
\<close>

record contact_frequency = contact_order +
  contacts_last_30d :: int
  contacts_last_60d :: int
  contacts_last_90d :: int

definition with_counts :: "int \<times> int \<Rightarrow> int \<times> int \<Rightarrow> int \<times> int \<Rightarrow> deployment list \<Rightarrow> contact_order \<Rightarrow> contact_frequency" where
  "with_counts f30 f60 f90 rows w =
     contact_order.extend w
       (contact_frequency.fields
          (count_over f30 rows w - 1)
          (count_over f60 rows w - 1)
          (count_over f90 rows w - 1))"

definition df_contact_frequency :: "date \<Rightarrow> deployment list \<Rightarrow> error + contact_frequency list" where
  "df_contact_frequency today csv =
     then_do (analyse_frame campaign_schema ''DEPLOYMENT_DATE'' window_client_30d) (\<lambda>f30.
     then_do (analyse_frame campaign_schema ''DEPLOYMENT_DATE'' window_client_60d) (\<lambda>f60.
     then_do (analyse_frame campaign_schema ''DEPLOYMENT_DATE'' window_client_90d) (\<lambda>f90.
       Inr (map (with_counts f30 f60 f90 (df_deployments today csv))
              (ordered_contacts today csv)))))"

subsection \<open>2. Campaign performance\<close>

text \<open>
  The aggregates of one \<open>(CAMPAIGN_ID, CAMPAIGN_NAME, CHANNEL, OFFER_TYPE)\<close> group.
  The revenue columns, which no statement below reads, are left out here and in the
  tables that follow.
\<close>

record campaign_performance =
  total_deployments :: int
  unique_clients :: int
  total_responses :: "int option"
  total_conversions :: "int option"
  response_rate :: "real option"
  conversion_rate :: "real option"
  response_to_conversion_rate :: "real option"
  avg_days_to_response :: "real option"
  avg_days_to_conversion :: "real option"

type_synonym campaign_key = "string option \<times> string option \<times> string option \<times> string option"

definition campaign_key :: "deployment \<Rightarrow> campaign_key" where
  "campaign_key r = (CAMPAIGN_ID r, CAMPAIGN_NAME r, CHANNEL r, OFFER_TYPE r)"

definition days_to_response :: "deployment \<Rightarrow> int option" where
  "days_to_response r = when_flag (RESPONSE_FLAG r) (datediff (RESPONSE_DATE r) (DEPLOYMENT_DATE r))"

definition days_to_conversion :: "deployment \<Rightarrow> int option" where
  "days_to_conversion r = when_flag (CONVERSION_FLAG r) (datediff (CONVERSION_DATE r) (DEPLOYMENT_DATE r))"

definition campaign_agg :: "deployment list \<Rightarrow> campaign_performance" where
  "campaign_agg g =
     \<lparr>campaign_performance.total_deployments = count_col TACTIC_ID g,
      campaign_performance.unique_clients = countDistinct CLIENT_ID g,
      campaign_performance.total_responses = sum_col RESPONSE_FLAG g,
      campaign_performance.total_conversions = sum_col CONVERSION_FLAG g,
      campaign_performance.response_rate =
        col_mul (col_div (sum_col RESPONSE_FLAG g) (Some (count_col TACTIC_ID g))) 100,
      campaign_performance.conversion_rate =
        col_mul (col_div (sum_col CONVERSION_FLAG g) (Some (count_col TACTIC_ID g))) 100,
      campaign_performance.response_to_conversion_rate =
        col_mul (col_div (sum_col CONVERSION_FLAG g) (sum_col RESPONSE_FLAG g)) 100,
      campaign_performance.avg_days_to_response = avg_col days_to_response g,
      campaign_performance.avg_days_to_conversion = avg_col days_to_conversion g\<rparr>"

definition df_campaign_performance :: "date \<Rightarrow> deployment list \<Rightarrow> (campaign_key \<times> campaign_performance) list" where
  "df_campaign_performance today csv =
     map (\<lambda>(k, g). (k, campaign_agg g)) (groupBy campaign_key (df_deployments today csv))"

subsection \<open>3. Contact frequency impact\<close>

record frequency_impact =
  deployments_count :: int
  avg_response_rate :: "real option"
  avg_conversion_rate :: "real option"

definition frequency_agg :: "'a deployment_scheme list \<Rightarrow> frequency_impact" where
  "frequency_agg g =
     \<lparr>deployments_count = count_col TACTIC_ID g,
      avg_response_rate = avg_col RESPONSE_FLAG g,
      avg_conversion_rate = avg_col CONVERSION_FLAG g\<rparr>"


subsection \<open>4. Client engagement\<close>

text \<open>The contact dates of the client and the engagement score, which no statement
  below reads, are left out.\<close>

record client_engagement =
  total_contacts :: int
  total_responses :: "int option"
  total_conversions :: "int option"
  response_rate :: "real option"
  conversion_rate :: "real option"

definition client_agg :: "deployment list \<Rightarrow> client_engagement" where
  "client_agg g =
     \<lparr>client_engagement.total_contacts = count_col TACTIC_ID g,
      client_engagement.total_responses = sum_col RESPONSE_FLAG g,
      client_engagement.total_conversions = sum_col CONVERSION_FLAG g,
      client_engagement.response_rate =
        col_div (sum_col RESPONSE_FLAG g) (Some (count_col TACTIC_ID g)),
      client_engagement.conversion_rate =
        col_div (sum_col CONVERSION_FLAG g) (Some (count_col TACTIC_ID g))\<rparr>"

definition df_client_engagement :: "date \<Rightarrow> deployment list \<Rightarrow> (string option \<times> client_engagement) list" where
  "df_client_engagement today csv =
     map (\<lambda>(k, g). (k, client_agg g)) (groupBy CLIENT_ID (df_deployments today csv))"

subsection \<open>5. Optimal contact frequency\<close>

text \<open>
  \<open>join(..., on="TACTIC_ID")\<close> is an inner equi-join: a pair of rows is kept when
  both ids are equal and not null.  A joined row is the pair of the window row and the
  deployment row it met; of the latter the script selects \<open>TACTIC_ID\<close>,
  \<open>CHANNEL\<close>, \<open>RESPONSE_FLAG\<close>, \<open>CONVERSION_FLAG\<close> and \<open>REVENUE\<close>.
\<close>

definition join_on :: "string option \<Rightarrow> string option \<Rightarrow> bool" where
  "join_on a b = (a \<noteq> None \<and> a = b)"

definition matches :: "deployment list \<Rightarrow> 'a deployment_scheme \<Rightarrow> deployment list" where
  "matches right w = filter (\<lambda>s. join_on (TACTIC_ID w) (TACTIC_ID s)) right"

definition join_tactic :: "'a deployment_scheme list \<Rightarrow> deployment list \<Rightarrow> ('a deployment_scheme \<times> deployment) list" where
  "join_tactic left right = concat (map (\<lambda>w. map (Pair w) (matches right w)) left)"

definition optimal_joined :: "date \<Rightarrow> deployment list \<Rightarrow> error + (contact_frequency \<times> deployment) list" where
  "optimal_joined today csv =
     then_do (df_contact_frequency today csv) (\<lambda>ws.
       Inr (join_tactic ws (df_deployments today csv)))"

text \<open>
  The columns of the joined frame: the join column once, then the other columns of
  the window frame, then the other selected columns.  \<open>CHANNEL\<close>, the two flags and
  \<open>REVENUE\<close> are there twice.
\<close>

definition contact_frequency_columns :: "string list" where
  "contact_frequency_columns =
     map fst campaign_schema @
     [''days_since_last_contact'', ''contact_number'',
      ''contacts_last_30d'', ''contacts_last_60d'', ''contacts_last_90d'']"

definition selected_columns :: "string list" where
  "selected_columns = [''TACTIC_ID'', ''CHANNEL'', ''RESPONSE_FLAG'', ''CONVERSION_FLAG'', ''REVENUE'']"

definition joined_columns :: "string list" where
  "joined_columns =
     ''TACTIC_ID'' # removeAll ''TACTIC_ID'' contact_frequency_columns @
     removeAll ''TACTIC_ID'' selected_columns"

text \<open>The values of a joined row, in the order of \<open>joined_columns\<close>.\<close>

datatype cell =
    StringCell "string option"
  | IntegralCell "int option"
  | DateCell "date option"
  | DoubleCell "real option"

definition joined_cells :: "contact_frequency \<times> deployment \<Rightarrow> cell list" where
  "joined_cells j =
     (let w = fst j; s = snd j
      in [StringCell (TACTIC_ID w), StringCell (CLIENT_ID w), StringCell (CAMPAIGN_ID w),
          StringCell (CAMPAIGN_NAME w), DateCell (DEPLOYMENT_DATE w), StringCell (CHANNEL w),
          StringCell (CREATIVE_ID w), StringCell (SEGMENT w), StringCell (OFFER_TYPE w),
          IntegralCell (RESPONSE_FLAG w), DateCell (RESPONSE_DATE w),
          IntegralCell (CONVERSION_FLAG w), DateCell (CONVERSION_DATE w),
          DoubleCell (REVENUE w),
          IntegralCell (days_since_last_contact w), IntegralCell (Some (contact_number w)),
          IntegralCell (Some (contacts_last_30d w)), IntegralCell (Some (contacts_last_60d w)),
          IntegralCell (Some (contacts_last_90d w)),
          StringCell (CHANNEL s), IntegralCell (RESPONSE_FLAG s),
          IntegralCell (CONVERSION_FLAG s), DoubleCell (REVENUE s)])"

definition cell_present :: "cell \<Rightarrow> unit option" where
  "cell_present c =
     (case c of StringCell v \<Rightarrow> map_option (\<lambda>_. ()) v
      | IntegralCell v \<Rightarrow> map_option (\<lambda>_. ()) v
      | DateCell v \<Rightarrow> map_option (\<lambda>_. ()) v
      | DoubleCell v \<Rightarrow> map_option (\<lambda>_. ()) v)"

definition cell_integral :: "cell \<Rightarrow> int option" where
  "cell_integral c = (case c of IntegralCell v \<Rightarrow> v | _ \<Rightarrow> None)"

record optimal_frequency =
  sample_size :: int
  response_rate :: "real option"
  conversion_rate :: "real option"

text \<open>The aggregates of one group, the columns being given by their positions.\<close>

definition optimal_agg :: "nat \<Rightarrow> nat \<Rightarrow> nat \<Rightarrow> (contact_frequency \<times> deployment) list \<Rightarrow> optimal_frequency" where
  "optimal_agg id_col response_col conversion_col g =
     \<lparr>optimal_frequency.sample_size = count_col (\<lambda>j. cell_present (joined_cells j ! id_col)) g,
      optimal_frequency.response_rate = avg_col (\<lambda>j. cell_integral (joined_cells j ! response_col)) g,
      optimal_frequency.conversion_rate = avg_col (\<lambda>j. cell_integral (joined_cells j ! conversion_col)) g\<rparr>"

text \<open>
  \<open>groupBy("CHANNEL", "contacts_last_30d").agg(...).filter(col("sample_size") >= 100)\<close>
  on the joined frame: the names of the grouping and of the aggregates are resolved
  against its columns, in that order, before a row is read.
\<close>

definition optimal_frequency_of :: "(contact_frequency \<times> deployment) list \<Rightarrow> error + ((cell \<times> cell) \<times> optimal_frequency) list" where
  "optimal_frequency_of joined =
     then_do (resolve joined_columns ''CHANNEL'') (\<lambda>channel_col.
     then_do (resolve joined_columns ''contacts_last_30d'') (\<lambda>bucket_col.
     then_do (resolve joined_columns ''TACTIC_ID'') (\<lambda>id_col.
     then_do (resolve joined_columns ''RESPONSE_FLAG'') (\<lambda>response_col.
     then_do (resolve joined_columns ''CONVERSION_FLAG'') (\<lambda>conversion_col.
     then_do (resolve joined_columns ''REVENUE'') (\<lambda>revenue_col.
       Inr (filter (\<lambda>b. optimal_frequency.sample_size (snd b) \<ge> 100)
              (map (\<lambda>(k, g). (k, optimal_agg id_col response_col conversion_col g))
                 (groupBy (\<lambda>j. (joined_cells j ! channel_col, joined_cells j ! bucket_col))
                    joined)))))))))"

definition df_optimal_frequency :: "date \<Rightarrow> deployment list \<Rightarrow> error + ((cell \<times> cell) \<times> optimal_frequency) list" where
  "df_optimal_frequency today csv = then_do (optimal_joined today csv) optimal_frequency_of"

subsection \<open>6. Monthly trends\<close>

text \<open>
  \<open>date_format(d, "yyyy-MM")\<close> names the calendar month of a date; the model keeps
  the pair (year, month) of the proleptic Gregorian calendar, which groups and sorts
  as the string does.
\<close>

definition year_month_of :: "date \<Rightarrow> int \<times> int" where
  "year_month_of days =
     (let z = days + 719468;
          era = z div 146097;
          doe = z mod 146097;
          yoe = (doe - doe div 1460 + doe div 36524 - doe div 146096) div 365;
          doy = doe - (365 * yoe + yoe div 4 - yoe div 100);
          mp = (5 * doy + 2) div 153;
          m = (if mp < 10 then mp + 3 else mp - 9);
          y = yoe + era * 400 + (if m \<le> 2 then 1 else 0)
      in (y, m))"

definition year_month :: "deployment \<Rightarrow> (int \<times> int) option" where
  "year_month r = map_option year_month_of (DEPLOYMENT_DATE r)"

record monthly_trends =
  deployments :: int
  unique_clients :: int
  response_rate :: "real option"
  conversion_rate :: "real option"

definition monthly_agg :: "deployment list \<Rightarrow> monthly_trends" where
  "monthly_agg g =
     \<lparr>monthly_trends.deployments = count_col TACTIC_ID g,
      monthly_trends.unique_clients = countDistinct CLIENT_ID g,
      monthly_trends.response_rate = avg_col RESPONSE_FLAG g,
      monthly_trends.conversion_rate = avg_col CONVERSION_FLAG g\<rparr>"

definition df_monthly_trends :: "date \<Rightarrow> deployment list \<Rightarrow> (((int \<times> int) option \<times> string option) \<times> monthly_trends) list" where
  "df_monthly_trends today csv =
     sort_key fst
       (map (\<lambda>(k, g). (k, monthly_agg g))
          (groupBy (\<lambda>r. (year_month r, CHANNEL r)) (df_deployments today csv)))"

subsection \<open>Example batches\<close>

text \<open>A deployment of campaign \<open>K1\<close> by e-mail with the given tactic id, client, day and
  response flag, and neither response date nor conversion.\<close>

definition contact :: "string option \<Rightarrow> string \<Rightarrow> date \<Rightarrow> int \<Rightarrow> deployment" where
  "contact t c d f =
     \<lparr>TACTIC_ID = t, CLIENT_ID = Some c, CAMPAIGN_ID = Some ''K1'',
      CAMPAIGN_NAME = Some ''Spring'', DEPLOYMENT_DATE = Some d, CHANNEL = Some ''EMAIL'',
      CREATIVE_ID = None, SEGMENT = None, OFFER_TYPE = Some ''RATE'',
      RESPONSE_FLAG = Some f, RESPONSE_DATE = None,
      CONVERSION_FLAG = Some 0, CONVERSION_DATE = None, REVENUE = None\<rparr>"

definition campaign_K1 :: campaign_key where
  "campaign_K1 = (Some ''K1'', Some ''Spring'', Some ''EMAIL'', Some ''RATE'')"

text \<open>Client \<open>C1\<close> contacted on days 1, 5 and 40, with response flags 0, 1, 0.\<close>

definition batch_1_5_40 :: "deployment list" where
  "batch_1_5_40 =
     [contact (Some ''T1'') ''C1'' 1 0, contact (Some ''T2'') ''C1'' 5 1,
      contact (Some ''T3'') ''C1'' 40 0]"

text \<open>Two clients; the second contact is answered after 3 days, the third after 4 days and
  converted after 10.\<close>

definition batch_outcomes :: "deployment list" where
  "batch_outcomes =
     [contact (Some ''T1'') ''C1'' 1 0,
      (contact (Some ''T2'') ''C1'' 5 1)\<lparr>RESPONSE_DATE := Some 8\<rparr>,
      (contact (Some ''T3'') ''C2'' 40 1)\<lparr>RESPONSE_DATE := Some 44, CONVERSION_FLAG := Some 1,
         CONVERSION_DATE := Some 50\<rparr>]"

text \<open>One contact that nobody answered.\<close>

definition batch_quiet :: "deployment list" where
  "batch_quiet = [contact (Some ''T1'') ''C1'' 40 0]"

text \<open>One row whose \<open>TACTIC_ID\<close> field is empty in the file.\<close>

definition batch_no_id :: "deployment list" where
  "batch_no_id = [contact None ''C1'' 40 1]"

text \<open>A row without \<open>TACTIC_ID\<close> and a row with one, of two clients.\<close>

definition batch_half_ids :: "deployment list" where
  "batch_half_ids = [contact None ''C1'' 40 1, contact (Some ''T2'') ''C2'' 40 1]"

text \<open>Two contacts of one client on the same day.\<close>

definition batch_same_day :: "deployment list" where
  "batch_same_day = [contact (Some ''B'') ''C1'' 7 0, contact (Some ''A'') ''C1'' 7 0]"


section \<open>Properties\<close>

subsection \<open>Rows and counts\<close>

lemma count_col_filter: "count_col c rows = int (length (filter (\<lambda>r. c r \<noteq> None) rows))"
  by (simp add: count_col_def List.map_filter_def)

lemma count_col_pos: "x \<in> set rows \<Longrightarrow> c x \<noteq> None \<Longrightarrow> 1 \<le> count_col c rows"
proof -
  assume "x \<in> set rows" "c x \<noteq> None"
  then have "x \<in> set (filter (\<lambda>r. c r \<noteq> None) rows)" by simp
  then have "0 < length (filter (\<lambda>r. c r \<noteq> None) rows)" by (rule length_pos_if_in_set)
  then show ?thesis by (simp only: count_col_filter)
qed

lemma count_col_all: "\<forall>r\<in>set rows. c r \<noteq> None \<Longrightarrow> count_col c rows = int (length rows)"
  by (simp add: count_col_filter)


lemma df_deployments_subset: "r \<in> set (df_deployments today csv) \<Longrightarrow> r \<in> set csv"
  by (simp add: df_deployments_def)

lemma mset_df_deployments:
  "mset csv' = mset csv \<Longrightarrow> mset (df_deployments today csv') = mset (df_deployments today csv)"
  by (simp add: df_deployments_def)


lemma groupBy_mem:
  assumes "(k, g) \<in> set (groupBy key rows)"
  shows "g = filter (\<lambda>r. key r = k) rows" and "\<exists>r\<in>set rows. key r = k"
  using assms by (auto simp: groupBy_def)

subsection \<open>The window columns\<close>

lemma with_ordinals_base [simp]:
  "deployment.truncate (with_ordinals prev n r) = r"
  "TACTIC_ID (with_ordinals prev n r) = TACTIC_ID r"
  "CLIENT_ID (with_ordinals prev n r) = CLIENT_ID r"
  "DEPLOYMENT_DATE (with_ordinals prev n r) = DEPLOYMENT_DATE r"
  by (simp_all add: with_ordinals_def deployment.defs contact_order.defs)

lemma with_ordinals_new [simp]:
  "days_since_last_contact (with_ordinals prev n r) = datediff (DEPLOYMENT_DATE r) (lag prev)"
  "contact_number (with_ordinals prev n r) = n"
  by (simp_all add: with_ordinals_def deployment.defs contact_order.defs)


lemma over_window_truncate: "map deployment.truncate (over_window prev n rs) = rs"
  by (induction rs arbitrary: prev n) auto

lemma over_window_dates: "map DEPLOYMENT_DATE (over_window prev n rs) = map DEPLOYMENT_DATE rs"
  by (induction rs arbitrary: prev n) auto

lemma over_window_numbers:
  "map contact_number (over_window prev n rs) = [n..n + int (length rs) - 1]"
proof (induction rs arbitrary: prev n)
  case Nil
  show ?case by simp
next
  case (Cons r rs)
  have "[n..n + int (length (r # rs)) - 1] = n # [n + 1..n + 1 + int (length rs) - 1]"
    by (subst upto_rec1) (simp_all add: algebra_simps)
  with Cons show ?case by simp
qed



subsection \<open>Rolling contact counts\<close>

text \<open>The three frames of the script have a bigint lower bound, which the analysis
  rejects over the date ordering.\<close>

lemma window_client_frames:
  "window_client_30d = (Literal LongType (- 2592000), CurrentRow)"
  "window_client_60d = (Literal LongType (- 5184000), CurrentRow)"
  "window_client_90d = (Literal LongType (- 7776000), CurrentRow)"
  by (simp_all add: window_client_30d_def window_client_60d_def window_client_90d_def
      rangeBetween_def boundary_of_def)

lemma order_by_type: "map_of campaign_schema ''DEPLOYMENT_DATE'' = Some DateType"
  by (simp add: campaign_schema_def)

lemma analyse_bigint_frame:
  "analyse_frame campaign_schema ''DEPLOYMENT_DATE'' (Literal LongType x, b) =
     Inl (RangeFrameInvalidType DateType LongType)"
  by (simp add: analyse_frame_def order_by_type then_do_def check_boundary_def valid_frame_type_def)

lemma analyse_window_client_30d:
  "analyse_frame campaign_schema ''DEPLOYMENT_DATE'' window_client_30d =
     Inl (RangeFrameInvalidType DateType LongType)"
  by (simp only: window_client_frames analyse_bigint_frame)

text \<open>
  C1, on the batch of the scenario (client \<open>C1\<close> contacted on days 1, 5 and 40, the
  run being made on day 40): the statement that is to compute \<open>contacts_last_30d\<close>
  raises, so that the row of day 40 gets no \<open>contacts_last_30d\<close> at all, where the
  window of 30 days holds no earlier contact and the count is to be 0.  The frame is
  \<open>rangeBetween(-30*86400, 0)\<close>, a bound in seconds, of type bigint, over an ordering
  by a date.  The two columns added before it are as the scenario has them: the row
  of day 40 is the third contact, 35 days after the second.
\<close>

theorem contacts_last_30d_raises:
  "df_contact_frequency 40 batch_1_5_40 = Inl (RangeFrameInvalidType DateType LongType) \<and>
   window_client_30d = (Literal LongType (- 2592000), CurrentRow) \<and>
   map DEPLOYMENT_DATE (ordered_contacts 40 batch_1_5_40) = [Some 1, Some 5, Some 40] \<and>
   map contact_number (ordered_contacts 40 batch_1_5_40) = [1, 2, 3] \<and>
   map days_since_last_contact (ordered_contacts 40 batch_1_5_40) = [None, Some 4, Some 35]"
proof -
  have "df_contact_frequency 40 batch_1_5_40 = Inl (RangeFrameInvalidType DateType LongType)"
    by (simp add: df_contact_frequency_def analyse_window_client_30d then_do_def)
  moreover have "map DEPLOYMENT_DATE (ordered_contacts 40 batch_1_5_40) = [Some 1, Some 5, Some 40]"
    and "map contact_number (ordered_contacts 40 batch_1_5_40) = [1, 2, 3]"
    and "map days_since_last_contact (ordered_contacts 40 batch_1_5_40) = [None, Some 4, Some 35]"
    by code_simp+
  ultimately show ?thesis by (simp add: window_client_frames)
qed



subsection \<open>Ordinals\<close>

lemma sort_key_distinct_unique:
  fixes f :: "'a \<Rightarrow> 'b::linorder"
  assumes "mset xs = mset ys" and "distinct (map f xs)"
  shows "sort_key f xs = sort_key f ys"
proof -
  have set: "set xs = set ys" using assms(1) by (rule mset_eq_setD)
  have "mset (map f xs) = mset (map f ys)" using assms(1) by simp
  then have dy: "distinct (map f ys)" using assms(2) by (metis mset_eq_imp_distinct_iff)
  have inj: "inj_on f (set xs \<union> set ys)"
    using assms(2) set by (simp add: distinct_map)
  have "map f (sort_key f xs) = map f (sort_key f ys)"
  proof (rule sorted_distinct_set_unique)
    show "sorted (map f (sort_key f xs))" "sorted (map f (sort_key f ys))" by simp_all
    show "distinct (map f (sort_key f xs))" using assms(2) by (simp add: distinct_map)
    show "distinct (map f (sort_key f ys))" using dy by (simp add: distinct_map)
    show "set (map f (sort_key f xs)) = set (map f (sort_key f ys))" using set by simp
  qed
  moreover have "inj_on f (set (sort_key f xs) \<union> set (sort_key f ys))" using inj by simp
  ultimately show ?thesis by (simp add: inj_on_map_eq_map)
qed

text \<open>
  C2, as stated, fails on two contacts of one client on the same day: the contact with
  tactic id \<open>B\<close>, which arrives first, is numbered 1 and the contact \<open>A\<close> is numbered
  2, and the same two rows in the other order are numbered the other way round.  The
  window is ordered by \<open>DEPLOYMENT_DATE\<close> alone.
\<close>

theorem contact_number_tie_counterexample:
  "map TACTIC_ID (ordered_contacts 40 batch_same_day) = [Some ''B'', Some ''A''] \<and>
   map contact_number (ordered_contacts 40 batch_same_day) = [1, 2] \<and>
   map TACTIC_ID (ordered_contacts 40 (rev batch_same_day)) = [Some ''A'', Some ''B''] \<and>
   map contact_number (ordered_contacts 40 (rev batch_same_day)) = [1, 2]"
  by code_simp

text \<open>
  C2, amended: within each client partition the rows are in ascending order of
  \<open>DEPLOYMENT_DATE\<close>, with no tie-break by tactic id; the rows of the window are the
  rows of the client, each once, and their \<open>contact_number\<close>s are \<open>1..N\<close> in that
  order, without gap or repeat.  When the dates of the client are pairwise distinct,
  every arrangement of the same batch yields the same rows with the same ordinals.
\<close>

theorem contact_number_contiguous:
  fixes today :: date and csv :: "deployment list" and c :: "string option"
  defines "part \<equiv> filter (\<lambda>r. CLIENT_ID r = c) (df_deployments today csv)"
  defines "ws \<equiv> over_window_client (df_deployments today csv) c"
  shows "map contact_number ws = [1..int (length part)] \<and>
         sorted (map DEPLOYMENT_DATE ws) \<and>
         mset (map deployment.truncate ws) = mset part \<and>
         (\<forall>csv'. mset csv' = mset csv \<and> distinct (map DEPLOYMENT_DATE part) \<longrightarrow>
                over_window_client (df_deployments today csv') c = ws)"
proof -
  let ?sorted = "window_client (df_deployments today csv) c"
  have ws: "ws = over_window None 1 ?sorted"
    by (simp add: ws_def over_window_client_def)
  have len: "length ?sorted = length part"
    by (simp add: window_client_def part_def)
  have "map contact_number ws = [1..int (length part)]"
    by (simp add: ws over_window_numbers len)
  moreover have "sorted (map DEPLOYMENT_DATE ws)"
    by (simp add: ws over_window_dates window_client_def)
  moreover have "mset (map deployment.truncate ws) = mset part"
    by (simp add: ws over_window_truncate window_client_def part_def)
  moreover have "over_window_client (df_deployments today csv') c = ws"
    if "mset csv' = mset csv" and d: "distinct (map DEPLOYMENT_DATE part)" for csv'
  proof -
    have "mset part = mset (filter (\<lambda>r. CLIENT_ID r = c) (df_deployments today csv'))"
      using mset_df_deployments[OF that(1), of today] by (simp add: part_def)
    then have "window_client (df_deployments today csv') c = ?sorted"
      unfolding window_client_def using sort_key_distinct_unique[OF _ d] by (metis part_def)
    then show ?thesis by (simp add: ws over_window_client_def)
  qed
  ultimately show ?thesis by blast
qed

theorem contact_number_contiguous_witness:
  "map contact_number (over_window_client (df_deployments 40 batch_1_5_40) (Some ''C1'')) = [1, 2, 3] \<and>
   over_window_client (df_deployments 40 (rev batch_1_5_40)) (Some ''C1'') =
     over_window_client (df_deployments 40 batch_1_5_40) (Some ''C1'')"
proof -
  let ?part = "filter (\<lambda>r. CLIENT_ID r = Some ''C1'') (df_deployments 40 batch_1_5_40)"
  have d: "distinct (map DEPLOYMENT_DATE ?part)" by code_simp
  have n: "[1..int (length ?part)] = [1, 2, 3]" by code_simp
  have m: "mset (rev batch_1_5_40) = mset batch_1_5_40" by simp
  from contact_number_contiguous[of 40 batch_1_5_40 "Some ''C1''"] d n m show ?thesis
    by (metis (no_types, lifting))
qed

subsection \<open>Campaign performance\<close>

lemma campaign_rows:
  assumes "(k, a) \<in> set (df_campaign_performance today csv)"
  shows "a = campaign_agg (filter (\<lambda>r. campaign_key r = k) (df_deployments today csv))"
  using assms by (auto simp: df_campaign_performance_def dest: groupBy_mem(1))

lemma campaign_outcomes:
  "df_campaign_performance 40 batch_outcomes =
     [(campaign_K1,
       \<lparr>total_deployments = 3, unique_clients = 2, total_responses = Some 2,
        total_conversions = Some 1, response_rate = Some (200 / 3),
        conversion_rate = Some (100 / 3), response_to_conversion_rate = Some 50,
        avg_days_to_response = Some (7 / 2), avg_days_to_conversion = Some 10\<rparr>)]"
  by code_simp

lemma campaign_quiet:
  "df_campaign_performance 40 batch_quiet =
     [(campaign_K1,
       \<lparr>total_deployments = 1, unique_clients = 1, total_responses = Some 0,
        total_conversions = Some 0, response_rate = Some 0,
        conversion_rate = Some 0, response_to_conversion_rate = None,
        avg_days_to_response = None, avg_days_to_conversion = None\<rparr>)]"
  by code_simp

text \<open>
  C3: for every group of \<open>df_campaign_performance\<close>, \<open>response_to_conversion_rate\<close>
  is null when \<open>total_responses\<close> is 0, and is
  \<open>total_conversions / total_responses * 100\<close> when \<open>total_responses\<close> is positive
  (null when \<open>total_conversions\<close> is null).  The division of the model is Spark's with
  ANSI mode off, which yields null on a zero divisor and raises nothing.
\<close>

theorem response_to_conversion_rate_null_on_zero:
  assumes "(k, a) \<in> set (df_campaign_performance today csv)"
  shows "(campaign_performance.total_responses a = Some 0 \<longrightarrow>
            response_to_conversion_rate a = None) \<and>
         (\<forall>n. campaign_performance.total_responses a = Some n \<and> 0 < n \<longrightarrow>
            response_to_conversion_rate a =
              map_option (\<lambda>c. real_of_int c / real_of_int n * 100)
                (campaign_performance.total_conversions a))"
  unfolding campaign_rows[OF assms]
  by (auto simp: campaign_agg_def col_div_def col_mul_def split: option.splits)

theorem response_to_conversion_rate_witness:
  "response_to_conversion_rate (snd (hd (df_campaign_performance 40 batch_quiet))) = None \<and>
   response_to_conversion_rate (snd (hd (df_campaign_performance 40 batch_outcomes))) = Some 50"
proof -
  let ?q = "snd (hd (df_campaign_performance 40 batch_quiet))"
  let ?o = "snd (hd (df_campaign_performance 40 batch_outcomes))"
  have "(campaign_K1, ?q) \<in> set (df_campaign_performance 40 batch_quiet)"
    and "campaign_performance.total_responses ?q = Some 0"
    by (simp_all add: campaign_quiet)
  then have q: "response_to_conversion_rate ?q = None"
    using response_to_conversion_rate_null_on_zero by blast
  have "(campaign_K1, ?o) \<in> set (df_campaign_performance 40 batch_outcomes)"
    and "campaign_performance.total_responses ?o = Some 2 \<and> (0::int) < 2"
    and c: "campaign_performance.total_conversions ?o = Some 1"
    by (simp_all add: campaign_outcomes)
  then have "response_to_conversion_rate ?o =
      map_option (\<lambda>c. real_of_int c / real_of_int 2 * 100) (campaign_performance.total_conversions ?o)"
    using response_to_conversion_rate_null_on_zero by blast
  with c have "response_to_conversion_rate ?o = Some 50" by simp
  with q show ?thesis by simp
qed







subsection \<open>Client engagement\<close>

lemma client_rows:
  assumes "(k, a) \<in> set (df_client_engagement today csv)"
  shows "a = client_agg (filter (\<lambda>r. CLIENT_ID r = k) (df_deployments today csv))"
    and "\<exists>r\<in>set (df_deployments today csv). CLIENT_ID r = k"
  using assms by (auto simp: df_client_engagement_def dest: groupBy_mem)

lemma client_outcomes:
  "df_client_engagement 40 batch_outcomes =
     [(Some ''C1'',
       \<lparr>total_contacts = 2, total_responses = Some 1, total_conversions = Some 0,
        response_rate = Some (1 / 2), conversion_rate = Some 0\<rparr>),
      (Some ''C2'',
       \<lparr>total_contacts = 1, total_responses = Some 1, total_conversions = Some 1,
        response_rate = Some 1, conversion_rate = Some 1\<rparr>)]"
  by code_simp

text \<open>
  C8, as stated, fails on a client whose only row has no \<open>TACTIC_ID\<close>: the group
  arises from one deployment row, \<open>total_contacts = count("TACTIC_ID")\<close> is 0, and both
  rates are null, not 0.  The script divides without a guard of its own.
\<close>

theorem client_rates_counterexample:
  "df_client_engagement 40 batch_no_id =
     [(Some ''C1'',
       \<lparr>total_contacts = 0, total_responses = Some 1, total_conversions = Some 0,
        response_rate = None, conversion_rate = None\<rparr>)]"
  by code_simp

text \<open>
  C8, amended: in \<open>df_client_engagement\<close>, \<open>response_rate\<close> and
  \<open>conversion_rate\<close> are the engine's quotients
  \<open>total_responses / total_contacts\<close> and \<open>total_conversions / total_contacts\<close>,
  with no guard of the script's own: both are null when \<open>total_contacts\<close> is 0, and no
  division fault occurs.  When every row of the batch carries a \<open>TACTIC_ID\<close>, every
  client group has \<open>total_contacts \<ge> 1\<close>, so that the zero divisor does not arise.
\<close>

theorem client_rates_null_on_zero:
  assumes "(k, a) \<in> set (df_client_engagement today csv)"
  shows "(total_contacts a = 0 \<longrightarrow>
            client_engagement.response_rate a = None \<and> client_engagement.conversion_rate a = None) \<and>
         (total_contacts a \<noteq> 0 \<longrightarrow>
            client_engagement.response_rate a =
              map_option (\<lambda>s. real_of_int s / real_of_int (total_contacts a))
                (client_engagement.total_responses a) \<and>
            client_engagement.conversion_rate a =
              map_option (\<lambda>s. real_of_int s / real_of_int (total_contacts a))
                (client_engagement.total_conversions a)) \<and>
         ((\<forall>r\<in>set csv. TACTIC_ID r \<noteq> None) \<longrightarrow> 1 \<le> total_contacts a)"
proof -
  let ?g = "filter (\<lambda>r. CLIENT_ID r = k) (df_deployments today csv)"
  have a: "a = client_agg ?g" by (rule client_rows(1)[OF assms])
  have "1 \<le> total_contacts a" if t: "\<forall>r\<in>set csv. TACTIC_ID r \<noteq> None"
  proof -
    from client_rows(2)[OF assms] obtain r where r: "r \<in> set (df_deployments today csv)" "CLIENT_ID r = k"
      by blast
    then have "r \<in> set ?g" by simp
    moreover have "TACTIC_ID r \<noteq> None" using t r(1) df_deployments_subset by blast
    ultimately have "1 \<le> count_col TACTIC_ID ?g" by (rule count_col_pos)
    then show ?thesis by (simp add: a client_agg_def)
  qed
  moreover have "total_contacts a = 0 \<longrightarrow>
      client_engagement.response_rate a = None \<and> client_engagement.conversion_rate a = None"
    by (auto simp: a client_agg_def col_div_def split: option.splits)
  moreover have "total_contacts a \<noteq> 0 \<longrightarrow>
            client_engagement.response_rate a =
              map_option (\<lambda>s. real_of_int s / real_of_int (total_contacts a))
                (client_engagement.total_responses a) \<and>
            client_engagement.conversion_rate a =
              map_option (\<lambda>s. real_of_int s / real_of_int (total_contacts a))
                (client_engagement.total_conversions a)"
    by (auto simp: a client_agg_def col_div_def split: option.splits)
  ultimately show ?thesis by blast
qed

theorem client_rates_null_on_zero_witness:
  "client_engagement.response_rate (snd (hd (df_client_engagement 40 batch_no_id))) = None \<and>
   client_engagement.response_rate (snd (hd (df_client_engagement 40 batch_outcomes))) = Some (1 / 2) \<and>
   1 \<le> total_contacts (snd (hd (df_client_engagement 40 batch_outcomes)))"
proof -
  let ?z = "snd (hd (df_client_engagement 40 batch_no_id))"
  let ?o = "snd (hd (df_client_engagement 40 batch_outcomes))"
  have zt: "df_client_engagement 40 batch_no_id =
     [(Some ''C1'',
       \<lparr>total_contacts = 0, total_responses = Some 1, total_conversions = Some 0,
        response_rate = None, conversion_rate = None\<rparr>)]"
    by code_simp
  then have "(Some ''C1'', ?z) \<in> set (df_client_engagement 40 batch_no_id)"
    and "total_contacts ?z = 0"
    by simp_all
  then have z: "client_engagement.response_rate ?z = None"
    using client_rates_null_on_zero by blast
  have o: "(Some ''C1'', ?o) \<in> set (df_client_engagement 40 batch_outcomes)"
    and n: "total_contacts ?o = 2" and s: "client_engagement.total_responses ?o = Some 1"
    by (simp_all add: client_outcomes)
  have ids: "\<forall>r\<in>set batch_outcomes. TACTIC_ID r \<noteq> None"
    by (simp add: batch_outcomes_def contact_def)
  from client_rates_null_on_zero[OF o] n s ids
  have "client_engagement.response_rate ?o = Some (1 / 2)" "1 \<le> total_contacts ?o"
    by simp_all
  with z show ?thesis by simp
qed

subsection \<open>Optimal contact frequency\<close>

lemma resolve_CHANNEL: "resolve joined_columns ''CHANNEL'' = Inl (AmbiguousReference ''CHANNEL'')"
  by code_simp

lemma length_joined_cells: "length (joined_cells j) = length joined_columns"
  by (simp add: joined_cells_def Let_def joined_columns_def contact_frequency_columns_def
      selected_columns_def campaign_schema_def)

text \<open>
  C4: \<open>df_optimal_frequency\<close> raises for every batch, so that the table whose rows
  are to have \<open>sample_size \<ge> 100\<close> is never produced.  The window frame it joins
  raises; and on any joined frame the grouping raises, \<open>CHANNEL\<close> being a column of
  both sides of the join: the filter \<open>sample_size >= 100\<close> is not reached.
\<close>

theorem optimal_frequency_raises:
  "df_optimal_frequency today csv = Inl (RangeFrameInvalidType DateType LongType) \<and>
   optimal_frequency_of joined = Inl (AmbiguousReference ''CHANNEL'') \<and>
   length (filter (\<lambda>c. c = ''CHANNEL'') joined_columns) = 2"
proof -
  have "df_optimal_frequency today csv = Inl (RangeFrameInvalidType DateType LongType)"
    by (simp add: df_optimal_frequency_def optimal_joined_def df_contact_frequency_def
        analyse_window_client_30d then_do_def)
  moreover have "optimal_frequency_of joined = Inl (AmbiguousReference ''CHANNEL'')"
    by (simp add: optimal_frequency_of_def resolve_CHANNEL then_do_def)
  moreover have "length (filter (\<lambda>c. c = ''CHANNEL'') joined_columns) = 2"
    by code_simp
  ultimately show ?thesis by (intro conjI)
qed

subsection \<open>The join\<close>








subsection \<open>Scales of the rates\<close>

lemma sum_list_flags:
  "(\<forall>x\<in>set vs. x = 0 \<or> x = (1::int)) \<Longrightarrow> 0 \<le> sum_list vs \<and> sum_list vs \<le> int (length vs)"
  by (induction vs) auto

lemma map_filter_flags:
  assumes "\<forall>r\<in>set g. c r = None \<or> c r = Some 0 \<or> c r = Some (1::int)"
  shows "\<forall>x\<in>set (List.map_filter c g). x = 0 \<or> x = 1"
  using assms by (induction g) (auto split: option.splits)

lemma length_map_filter_le: "length (List.map_filter c g) \<le> length g"
  by (simp add: List.map_filter_def)

text \<open>The mean of flags that are 0 or 1 is a fraction.\<close>

lemma avg_col_fraction:
  assumes "\<forall>r\<in>set g. c r = None \<or> c r = Some 0 \<or> c r = Some 1" and "avg_col c g = Some v"
  shows "0 \<le> v \<and> v \<le> 1"
proof -
  let ?vs = "List.map_filter c g"
  from assms(2) have ne: "?vs \<noteq> []" and v: "v = real_of_int (sum_list ?vs) / real (length ?vs)"
    by (auto simp: avg_col_def Let_def split: if_splits)
  from sum_list_flags[OF map_filter_flags[OF assms(1)]]
  have "0 \<le> real_of_int (sum_list ?vs)" "real_of_int (sum_list ?vs) \<le> real (length ?vs)"
    by (simp, metis of_int_le_iff of_int_of_nat_eq)
  moreover have "0 < real (length ?vs)" using ne by simp
  ultimately show ?thesis by (simp add: v)
qed

text \<open>The sum of such flags over the count of tactic ids, times 100, is a percentage
  when no tactic id is missing.\<close>

lemma rate_percent:
  assumes flags: "\<forall>r\<in>set g. c r = None \<or> c r = Some 0 \<or> c r = Some 1"
    and ids: "\<forall>r\<in>set g. TACTIC_ID r \<noteq> None"
    and v: "col_mul (col_div (sum_col c g) (Some (count_col TACTIC_ID g))) 100 = Some v"
  shows "0 \<le> v \<and> v \<le> 100"
proof -
  let ?vs = "List.map_filter c g"
  have n: "count_col TACTIC_ID g = int (length g)"
    using ids by (rule count_col_all)
  from v have ne: "?vs \<noteq> []" "g \<noteq> []"
    and v': "v = real_of_int (sum_list ?vs) / real (length g) * 100"
    by (auto simp: col_mul_def col_div_def sum_col_def n Let_def split: option.splits if_splits)
  from sum_list_flags[OF map_filter_flags[OF flags]] length_map_filter_le[of c g]
  have "0 \<le> sum_list ?vs" "sum_list ?vs \<le> int (length g)" by linarith+
  then have "0 \<le> real_of_int (sum_list ?vs)" "real_of_int (sum_list ?vs) \<le> real (length g)"
    by (simp, metis of_int_le_iff of_int_of_nat_eq)
  moreover have "0 < real (length g)" using ne by simp
  ultimately show ?thesis by (simp add: v' divide_le_eq)
qed

lemma percent_of_mean:
  assumes "\<forall>r\<in>set g. TACTIC_ID r \<noteq> None \<and> c r \<noteq> None"
  shows "col_mul (col_div (sum_col c g) (Some (count_col TACTIC_ID g))) 100 = col_mul (avg_col c g) 100"
proof -
  have n: "count_col TACTIC_ID g = int (length g)"
    using assms by (simp add: count_col_filter)
  have l: "length (List.map_filter c g) = length g"
    using assms by (simp add: List.map_filter_def)
  then have e: "List.map_filter c g = [] \<longleftrightarrow> g = []" by (metis length_0_conv)
  show ?thesis
    by (simp add: col_div_def sum_col_def avg_col_def Let_def n l e)
qed

lemma monthly_rows:
  assumes "b \<in> set (df_monthly_trends today csv)"
  shows "\<exists>g. set g \<subseteq> set csv \<and> snd b = monthly_agg g"
proof -
  from assms obtain k g where "b = (k, monthly_agg g)"
    and "(k, g) \<in> set (groupBy (\<lambda>r. (year_month r, CHANNEL r)) (df_deployments today csv))"
    by (auto simp: df_monthly_trends_def)
  then have "snd b = monthly_agg g" "set g \<subseteq> set csv"
    using df_deployments_subset by (auto dest!: groupBy_mem(1))
  then show ?thesis by blast
qed

lemma campaign_rows_subset:
  assumes "b \<in> set (df_campaign_performance today csv)"
  shows "\<exists>g. set g \<subseteq> set csv \<and> snd b = campaign_agg g"
proof -
  obtain k a where b: "b = (k, a)" by (cases b)
  let ?g = "filter (\<lambda>r. campaign_key r = k) (df_deployments today csv)"
  from b assms have "snd b = campaign_agg ?g"
    using campaign_rows by fastforce
  moreover have "set ?g \<subseteq> set csv"
    using df_deployments_subset by auto
  ultimately show ?thesis by (intro exI[of _ ?g] conjI)
qed

lemma monthly_outcomes:
  "df_monthly_trends 40 batch_outcomes =
     [((Some (1970, 1), Some ''EMAIL''),
       \<lparr>deployments = 2, unique_clients = 1, response_rate = Some (1 / 2),
        conversion_rate = Some 0\<rparr>),
      ((Some (1970, 2), Some ''EMAIL''),
       \<lparr>deployments = 1, unique_clients = 1, response_rate = Some 1,
        conversion_rate = Some 1\<rparr>)]"
  by code_simp

text \<open>
  C10, as stated, fails for the campaign rates on a group in which a row has no
  \<open>TACTIC_ID\<close>: two answered contacts, one of them without id, give
  \<open>response_rate = 2 / 1 * 100 = 200\<close>.
\<close>

theorem campaign_rate_counterexample:
  "campaign_performance.response_rate (snd (hd (df_campaign_performance 40 batch_half_ids))) = Some 200 \<and>
   length (df_campaign_performance 40 batch_half_ids) = 1"
  by code_simp

text \<open>
  C10, amended: with flags that are 0, 1 or null, the \<open>response_rate\<close> and
  \<open>conversion_rate\<close> of \<open>df_monthly_trends\<close> and the \<open>avg_response_rate\<close> and
  \<open>avg_conversion_rate\<close> that \<open>df_frequency_impact\<close> computes of a group are plain
  means of the flags and lie in \<open>[0, 1]\<close>; the \<open>response_rate\<close> and
  \<open>conversion_rate\<close> of \<open>df_campaign_performance\<close> are multiplied by 100 and lie in
  \<open>[0, 100]\<close> when every row of the batch carries a \<open>TACTIC_ID\<close>.  On a group
  without null flag or id the campaign rate is 100 times the monthly rate: the two
  families are on different scales.
\<close>

theorem rate_scales:
  assumes flags: "\<forall>r\<in>set csv.
      (RESPONSE_FLAG r = None \<or> RESPONSE_FLAG r = Some 0 \<or> RESPONSE_FLAG r = Some 1) \<and>
      (CONVERSION_FLAG r = None \<or> CONVERSION_FLAG r = Some 0 \<or> CONVERSION_FLAG r = Some 1)"
  shows "(\<forall>b\<in>set (df_monthly_trends today csv). \<forall>v.
            monthly_trends.response_rate (snd b) = Some v \<or>
            monthly_trends.conversion_rate (snd b) = Some v \<longrightarrow> 0 \<le> v \<and> v \<le> 1) \<and>
         (\<forall>ws. (\<forall>w\<in>set ws.
              (RESPONSE_FLAG w = None \<or> RESPONSE_FLAG w = Some 0 \<or> RESPONSE_FLAG w = Some 1) \<and>
              (CONVERSION_FLAG w = None \<or> CONVERSION_FLAG w = Some 0 \<or> CONVERSION_FLAG w = Some 1)) \<longrightarrow>
            (\<forall>v. avg_response_rate (frequency_agg ws) = Some v \<or>
                 avg_conversion_rate (frequency_agg ws) = Some v \<longrightarrow> 0 \<le> v \<and> v \<le> 1)) \<and>
         ((\<forall>r\<in>set csv. TACTIC_ID r \<noteq> None) \<longrightarrow>
            (\<forall>b\<in>set (df_campaign_performance today csv). \<forall>v.
               campaign_performance.response_rate (snd b) = Some v \<or>
               campaign_performance.conversion_rate (snd b) = Some v \<longrightarrow> 0 \<le> v \<and> v \<le> 100)) \<and>
         (\<forall>g. (\<forall>r\<in>set g. TACTIC_ID r \<noteq> None \<and> RESPONSE_FLAG r \<noteq> None \<and> CONVERSION_FLAG r \<noteq> None) \<longrightarrow>
            campaign_performance.response_rate (campaign_agg g) =
              col_mul (monthly_trends.response_rate (monthly_agg g)) 100 \<and>
            campaign_performance.conversion_rate (campaign_agg g) =
              col_mul (monthly_trends.conversion_rate (monthly_agg g)) 100)"
proof -
  have monthly: "0 \<le> v \<and> v \<le> 1"
    if "b \<in> set (df_monthly_trends today csv)"
      and "monthly_trends.response_rate (snd b) = Some v \<or> monthly_trends.conversion_rate (snd b) = Some v"
    for b v
  proof -
    from monthly_rows[OF that(1)] obtain g where g: "set g \<subseteq> set csv" "snd b = monthly_agg g" by blast
    from g(1) flags have "\<forall>r\<in>set g. RESPONSE_FLAG r = None \<or> RESPONSE_FLAG r = Some 0 \<or> RESPONSE_FLAG r = Some 1"
      and "\<forall>r\<in>set g. CONVERSION_FLAG r = None \<or> CONVERSION_FLAG r = Some 0 \<or> CONVERSION_FLAG r = Some 1"
      by blast+
    with that(2) show ?thesis
      using avg_col_fraction[of g RESPONSE_FLAG v] avg_col_fraction[of g CONVERSION_FLAG v]
      by (auto simp: g(2) monthly_agg_def)
  qed
  have freq: "0 \<le> v \<and> v \<le> 1"
    if "\<forall>w\<in>set ws.
          (RESPONSE_FLAG w = None \<or> RESPONSE_FLAG w = Some 0 \<or> RESPONSE_FLAG w = Some 1) \<and>
          (CONVERSION_FLAG w = None \<or> CONVERSION_FLAG w = Some 0 \<or> CONVERSION_FLAG w = Some 1)"
      and "avg_response_rate (frequency_agg ws) = Some v \<or> avg_conversion_rate (frequency_agg ws) = Some v"
    for ws :: "'a deployment_scheme list" and v
  proof -
    from that(1) have "\<forall>w\<in>set ws. RESPONSE_FLAG w = None \<or> RESPONSE_FLAG w = Some 0 \<or> RESPONSE_FLAG w = Some 1"
      and "\<forall>w\<in>set ws. CONVERSION_FLAG w = None \<or> CONVERSION_FLAG w = Some 0 \<or> CONVERSION_FLAG w = Some 1"
      by blast+
    with that(2) show ?thesis
      using avg_col_fraction[of ws RESPONSE_FLAG v] avg_col_fraction[of ws CONVERSION_FLAG v]
      by (auto simp: frequency_agg_def)
  qed
  have camp: "0 \<le> v \<and> v \<le> 100"
    if ids: "\<forall>r\<in>set csv. TACTIC_ID r \<noteq> None"
      and "b \<in> set (df_campaign_performance today csv)"
      and "campaign_performance.response_rate (snd b) = Some v \<or>
           campaign_performance.conversion_rate (snd b) = Some v"
    for b v
  proof -
    from campaign_rows_subset[OF that(2)] obtain g where g: "set g \<subseteq> set csv" "snd b = campaign_agg g"
      by blast
    from g(1) flags ids have "\<forall>r\<in>set g. RESPONSE_FLAG r = None \<or> RESPONSE_FLAG r = Some 0 \<or> RESPONSE_FLAG r = Some 1"
      and "\<forall>r\<in>set g. CONVERSION_FLAG r = None \<or> CONVERSION_FLAG r = Some 0 \<or> CONVERSION_FLAG r = Some 1"
      and "\<forall>r\<in>set g. TACTIC_ID r \<noteq> None"
      by blast+
    with that(3) show ?thesis
      using rate_percent[of g RESPONSE_FLAG v] rate_percent[of g CONVERSION_FLAG v]
      by (auto simp: g(2) campaign_agg_def)
  qed
  have scale: "campaign_performance.response_rate (campaign_agg g) =
              col_mul (monthly_trends.response_rate (monthly_agg g)) 100 \<and>
            campaign_performance.conversion_rate (campaign_agg g) =
              col_mul (monthly_trends.conversion_rate (monthly_agg g)) 100"
    if "\<forall>r\<in>set g. TACTIC_ID r \<noteq> None \<and> RESPONSE_FLAG r \<noteq> None \<and> CONVERSION_FLAG r \<noteq> None" for g
    using that percent_of_mean[of g RESPONSE_FLAG] percent_of_mean[of g CONVERSION_FLAG]
    by (simp add: campaign_agg_def monthly_agg_def)
  from monthly freq camp scale show ?thesis by blast
qed

theorem rate_scales_witness:
  "monthly_trends.response_rate (snd (hd (df_monthly_trends 40 batch_outcomes))) = Some (1 / 2) \<and>
   0 \<le> the (monthly_trends.response_rate (snd (hd (df_monthly_trends 40 batch_outcomes)))) \<and>
   the (monthly_trends.response_rate (snd (hd (df_monthly_trends 40 batch_outcomes)))) \<le> 1 \<and>
   avg_response_rate (frequency_agg (ordered_contacts 40 batch_outcomes)) = Some (2 / 3) \<and>
   the (avg_response_rate (frequency_agg (ordered_contacts 40 batch_outcomes))) \<le> 1 \<and>
   campaign_performance.response_rate (snd (hd (df_campaign_performance 40 batch_outcomes))) = Some (200 / 3) \<and>
   the (campaign_performance.response_rate (snd (hd (df_campaign_performance 40 batch_outcomes)))) \<le> 100 \<and>
   campaign_performance.response_rate (campaign_agg batch_outcomes) =
     col_mul (monthly_trends.response_rate (monthly_agg batch_outcomes)) 100"
proof -
  let ?m = "hd (df_monthly_trends 40 batch_outcomes)"
  let ?ws = "ordered_contacts 40 batch_outcomes"
  let ?c = "hd (df_campaign_performance 40 batch_outcomes)"
  have flags: "\<forall>r\<in>set batch_outcomes.
      (RESPONSE_FLAG r = None \<or> RESPONSE_FLAG r = Some 0 \<or> RESPONSE_FLAG r = Some 1) \<and>
      (CONVERSION_FLAG r = None \<or> CONVERSION_FLAG r = Some 0 \<or> CONVERSION_FLAG r = Some 1)"
    by (simp add: batch_outcomes_def contact_def)
  have ids: "\<forall>r\<in>set batch_outcomes. TACTIC_ID r \<noteq> None"
    by (simp add: batch_outcomes_def contact_def)
  have full: "\<forall>r\<in>set batch_outcomes.
      TACTIC_ID r \<noteq> None \<and> RESPONSE_FLAG r \<noteq> None \<and> CONVERSION_FLAG r \<noteq> None"
    by (simp add: batch_outcomes_def contact_def)
  note scales = rate_scales[OF flags, of 40]
  have m: "?m \<in> set (df_monthly_trends 40 batch_outcomes)"
    and mv: "monthly_trends.response_rate (snd ?m) = Some (1 / 2)"
    by (simp_all add: monthly_outcomes)
  have wf: "\<forall>w\<in>set ?ws.
      (RESPONSE_FLAG w = None \<or> RESPONSE_FLAG w = Some 0 \<or> RESPONSE_FLAG w = Some 1) \<and>
      (CONVERSION_FLAG w = None \<or> CONVERSION_FLAG w = Some 0 \<or> CONVERSION_FLAG w = Some 1)"
    by code_simp
  have fv: "avg_response_rate (frequency_agg ?ws) = Some (2 / 3)"
    by code_simp
  have c: "?c \<in> set (df_campaign_performance 40 batch_outcomes)"
    and cv: "campaign_performance.response_rate (snd ?c) = Some (200 / 3)"
    by (simp_all add: campaign_outcomes)
  from scales m mv have "(0::real) \<le> 1 / 2 \<and> (1 / 2 :: real) \<le> 1" by blast
  moreover from scales wf fv have "(0::real) \<le> 2 / 3 \<and> (2 / 3 :: real) \<le> 1" by blast
  moreover from scales ids c cv have "(0::real) \<le> 200 / 3 \<and> (200 / 3 :: real) \<le> 100" by blast
  moreover from scales full
  have "campaign_performance.response_rate (campaign_agg batch_outcomes) =
     col_mul (monthly_trends.response_rate (monthly_agg batch_outcomes)) 100"
    by blast
  ultimately show ?thesis by (simp add: mv fv cv)
qed

end
